theory Spec2Isabelle
  imports Main
begin

section \<open>The signaling relay of server.js\<close>

text \<open>
  The relay keeps a registry of websocket connections (\<^verbatim>\<open>connections\<close>, a Map from the
  client id to its socket), relays envelopes between two registered ids and remembers,
  per connection, which peers to notify when the socket closes (\<^verbatim>\<open>notifyOnClose\<close>).
  The handlers of \<^verbatim>\<open>wss.on('connection')\<close> are modelled as functions on an explicit
  server state; what they hand to \<^verbatim>\<open>ws.send\<close> is appended to a log.
\<close>

subsection \<open>JavaScript values\<close>

text \<open>
  The values \<^verbatim>\<open>JSON.parse\<close> returns, and \<^verbatim>\<open>undefined\<close> for the read of a property
  that is not there. The relay only tests a number for being zero, so numbers are
  integers here. An object is the list of its own properties in enumeration order.
\<close>

datatype js =
    JUndefined
  | JNull
  | JBool bool
  | JNumber int
  | JString string
  | JArray "js list"
  | JObject "(string \<times> js) list"

type_synonym obj = "(string \<times> js) list"

text \<open>\<^verbatim>\<open>data[k]\<close> on an object: the property's value, \<^verbatim>\<open>undefined\<close> when absent.\<close>

fun get_field :: "obj \<Rightarrow> string \<Rightarrow> js" where
  "get_field [] k = JUndefined"
| "get_field ((a, b) # ps) k = (if a = k then b else get_field ps k)"

text \<open>
  \<^verbatim>\<open>data[k] = v\<close> on an object: an existing property keeps its place, a new one is
  added at the end.
\<close>

fun set_field :: "string \<Rightarrow> js \<Rightarrow> obj \<Rightarrow> obj" where
  "set_field k v [] = [(k, v)]"
| "set_field k v ((a, b) # ps) = (if a = k then (k, v) # ps else (a, b) # set_field k v ps)"

text \<open>The truthiness that \<^verbatim>\<open>!data.id\<close> tests.\<close>

fun truthy :: "js \<Rightarrow> bool" where
  "truthy JUndefined = False"
| "truthy JNull = False"
| "truthy (JBool b) = b"
| "truthy (JNumber n) = (n \<noteq> 0)"
| "truthy (JString s) = (s \<noteq> [])"
| "truthy (JArray xs) = True"
| "truthy (JObject ps) = True"

subsection \<open>Server state\<close>

text \<open>
  A socket is identified with the id it is registered under, so the Map
  \<^verbatim>\<open>connections\<close> is the set of its keys. \<^verbatim>\<open>notifyOnClose\<close> is the array each
  connection handler closes over. \<^verbatim>\<open>wire\<close> lists, oldest first, the frames handed to
  \<^verbatim>\<open>ws.send\<close>: the receiving socket's id and the value given to \<^verbatim>\<open>JSON.stringify\<close>.
\<close>

record server =
  connections :: "string set"
  notifyOnClose :: "string \<Rightarrow> js list"
  wire :: "(string \<times> js) list"

datatype error = TypeError | UnhandledRejection

datatype admission = Registered | ClosedDuplicate

definition initial :: server where
  "initial = \<lparr>connections = {}, notifyOnClose = (\<lambda>_. []), wire = []\<rparr>"

text \<open>\<^verbatim>\<open>connections.has(k)\<close> and \<^verbatim>\<open>connections.get(k)\<close>: only a string is ever a key.\<close>

fun connections_has :: "server \<Rightarrow> js \<Rightarrow> bool" where
  "connections_has st (JString s) = (s \<in> connections st)"
| "connections_has st _ = False"

fun connections_get :: "server \<Rightarrow> js \<Rightarrow> string option" where
  "connections_get st (JString s) = (if s \<in> connections st then Some s else None)"
| "connections_get st _ = None"

text \<open>\<^verbatim>\<open>ws.send(JSON.stringify(data))\<close> on the socket registered as \<open>self\<close>.\<close>

definition send :: "string \<Rightarrow> js \<Rightarrow> server \<Rightarrow> server" where
  "send self frame st = st\<lparr>wire := wire st @ [(self, frame)]\<rparr>"

subsection \<open>Call state\<close>

text \<open>
  \<^verbatim>\<open>ws.trackCallState(data, peerId)\<close> of the connection \<open>self\<close>: \<^verbatim>\<open>answer\<close> pushes
  the peer, \<^verbatim>\<open>bye\<close> splices out its first occurrence when \<^verbatim>\<open>indexOf\<close> finds one,
  any other type does nothing.
\<close>

definition trackCallState :: "string \<Rightarrow> obj \<Rightarrow> js \<Rightarrow> server \<Rightarrow> server" where
  "trackCallState self data peerId st =
     (if get_field data ''type'' = JString ''answer'' then
        st\<lparr>notifyOnClose := (notifyOnClose st)(self := notifyOnClose st self @ [peerId])\<rparr>
      else if get_field data ''type'' = JString ''bye'' then
        (if peerId \<in> set (notifyOnClose st self) then
           st\<lparr>notifyOnClose := (notifyOnClose st)(self := remove1 peerId (notifyOnClose st self))\<rparr>
         else st)
      else st)"

text \<open>\<^verbatim>\<open>ws.sendMessage(data)\<close> of the connection \<open>self\<close>: track, then send.\<close>

definition sendMessage :: "string \<Rightarrow> obj \<Rightarrow> server \<Rightarrow> server" where
  "sendMessage self data st =
     send self (JObject data) (trackCallState self data (get_field data ''id'') st)"

subsection \<open>The handlers\<close>

definition hello :: "string \<Rightarrow> js" where
  "hello ident = JObject [(''type'', JString ''hello''), (''id'', JString ident)]"

definition stun_list :: js where
  "stun_list = JArray [JObject [(''urls'', JString ''stun:stun.l.google.com:19302'')]]"

definition iceServers :: "js \<Rightarrow> js" where
  "iceServers servers = JObject [(''type'', JString ''iceServers''), (''iceServers'', servers)]"

text \<open>
  \<^verbatim>\<open>wss.on('connection')\<close>. \<open>twilio\<close> tells whether the Twilio client was configured,
  \<open>ident\<close> is what \<^verbatim>\<open>generateClientId()\<close> returned. With Twilio the ICE list is sent
  when the promise of \<^verbatim>\<open>twilio.tokens.create()\<close> settles, see \<open>on_token\<close>.
\<close>

definition on_connection :: "bool \<Rightarrow> string \<Rightarrow> server \<Rightarrow> admission \<times> server" where
  "on_connection twilio ident st =
     (if ident \<in> connections st then (ClosedDuplicate, st)
      else
        let st1 = st\<lparr>connections := insert ident (connections st)\<rparr>;
            st2 = send ident (hello ident) st1;
            st3 = (if twilio then st2 else send ident (iceServers stun_list) st2)
        in (Registered, st3\<lparr>notifyOnClose := (notifyOnClose st3)(ident := [])\<rparr>))"

text \<open>
  How the promise of \<^verbatim>\<open>twilio.tokens.create()\<close> settles. The source chains one
  \<^verbatim>\<open>then\<close> with a fulfilment callback and no rejection handler.
\<close>

datatype settlement = Fulfilled obj | Rejected

fun on_token :: "string \<Rightarrow> settlement \<Rightarrow> server \<Rightarrow> error + server" where
  "on_token ident (Fulfilled token) st =
     Inr (send ident (iceServers (get_field token ''iceServers'')) st)"
| "on_token ident Rejected st = Inl UnhandledRejection"

text \<open>
  \<^verbatim>\<open>ws.on('message')\<close> of the connection \<open>ident\<close>. \<open>message\<close> is the result of
  \<^verbatim>\<open>JSON.parse(message)\<close>, \<open>None\<close> when it throws (the handler catches that and
  returns). Reading \<^verbatim>\<open>data.id\<close> throws a TypeError on \<^verbatim>\<open>null\<close>, and gives
  \<^verbatim>\<open>undefined\<close> on a boolean, a number, a string or an array.
\<close>

definition forward :: "string \<Rightarrow> obj \<Rightarrow> server \<Rightarrow> server" where
  "forward ident data st =
     (if \<not> truthy (get_field data ''id'') then st
      else if \<not> connections_has st (get_field data ''id'') then st
      else
        (case connections_get st (get_field data ''id'') of
           None \<Rightarrow> st
         | Some peer \<Rightarrow>
             let peerId = get_field data ''id'';
                 data' = set_field ''id'' (JString ident) data;
                 st1 = sendMessage peer data' st
             in trackCallState ident data' peerId st1))"

fun on_message :: "string \<Rightarrow> js option \<Rightarrow> server \<Rightarrow> error + server" where
  "on_message ident None st = Inr st"
| "on_message ident (Some JUndefined) st = Inl TypeError"
| "on_message ident (Some JNull) st = Inl TypeError"
| "on_message ident (Some (JObject data)) st = Inr (forward ident data st)"
| "on_message ident (Some _) st = Inr st"

text \<open>
  \<^verbatim>\<open>ws.on('close')\<close> of the connection \<open>ident\<close>: one step of the \<^verbatim>\<open>forEach\<close>, then
  the handler. The callback only touches the arrays of registered peers, and \<open>ident\<close>
  is no longer registered, so the array being walked does not change under the loop.
\<close>

definition bye :: "string \<Rightarrow> obj" where
  "bye ident = [(''type'', JString ''bye''), (''id'', JString ident)]"

definition notify_peer :: "string \<Rightarrow> js \<Rightarrow> server \<Rightarrow> server" where
  "notify_peer ident remoteId st =
     (case connections_get st remoteId of
        None \<Rightarrow> st
      | Some peer \<Rightarrow> sendMessage peer (bye ident) st)"

definition on_close :: "string \<Rightarrow> server \<Rightarrow> server" where
  "on_close ident st =
     (let st1 = st\<lparr>connections := connections st - {ident}\<rparr>
      in fold (notify_peer ident) (notifyOnClose st1 ident) st1)"

text \<open>What a run of handlers added to the log, and the frames in it for one socket.\<close>

definition sent_since :: "server \<Rightarrow> server \<Rightarrow> (string \<times> js) list" where
  "sent_since st st' = drop (length (wire st)) (wire st')"

definition received_by :: "string \<Rightarrow> (string \<times> js) list \<Rightarrow> js list" where
  "received_by b frames = map snd (filter (\<lambda>f. fst f = b) frames)"

subsection \<open>Runs\<close>

text \<open>
  The events the server reacts to, and a run of them from a state. An error of a handler
  is an exception nothing catches, so a run stops there.
\<close>

datatype event =
    Connect bool string
  | Token string settlement
  | Message string "js option"
  | Close string

fun step :: "event \<Rightarrow> server \<Rightarrow> error + server" where
  "step (Connect twilio ident) st = Inr (snd (on_connection twilio ident st))"
| "step (Token ident outcome) st = on_token ident outcome st"
| "step (Message ident message) st = on_message ident message st"
| "step (Close ident) st = Inr (on_close ident st)"

fun run :: "event list \<Rightarrow> server \<Rightarrow> error + server" where
  "run [] st = Inr st"
| "run (e # es) st = (case step e st of Inl err \<Rightarrow> Inl err | Inr st' \<Rightarrow> run es st')"

text \<open>Every frame the socket \<open>b\<close> was sent in a run.\<close>

fun inbox :: "string \<Rightarrow> error + server \<Rightarrow> error + js list" where
  "inbox b (Inl err) = Inl err"
| "inbox b (Inr st) = Inr (received_by b (wire st))"

text \<open>
  The state after two clients connected without Twilio and were given the ids \<open>a\<close> and
  \<open>b\<close>; the examples below start from it.
\<close>

definition two_peers :: server where
  "two_peers = snd (on_connection False ''b'' (snd (on_connection False ''a'' initial)))"

section \<open>Properties\<close>

subsection \<open>Objects, sends and call state\<close>

lemma send_simps:
  "connections (send b f st) = connections st"
  "notifyOnClose (send b f st) = notifyOnClose st"
  "wire (send b f st) = wire st @ [(b, f)]"
  by (simp_all add: send_def)

lemma trackCallState_simps:
  "connections (trackCallState c d p st) = connections st"
  "wire (trackCallState c d p st) = wire st"
  by (simp_all add: trackCallState_def)

lemma trackCallState_answer:
  "get_field d ''type'' = JString ''answer'' \<Longrightarrow>
   notifyOnClose (trackCallState c d p st) = (notifyOnClose st)(c := notifyOnClose st c @ [p])"
  by (simp add: trackCallState_def)

lemma trackCallState_bye:
  "get_field d ''type'' = JString ''bye'' \<Longrightarrow>
   notifyOnClose (trackCallState c d p st) = (notifyOnClose st)(c := remove1 p (notifyOnClose st c))"
  by (auto simp add: trackCallState_def remove1_idem)

lemma trackCallState_other:
  "get_field d ''type'' \<noteq> JString ''answer'' \<Longrightarrow> get_field d ''type'' \<noteq> JString ''bye'' \<Longrightarrow>
   trackCallState c d p st = st"
  by (simp add: trackCallState_def)

lemma sendMessage_simps:
  "connections (sendMessage b d st) = connections st"
  "wire (sendMessage b d st) = wire st @ [(b, JObject d)]"
  "notifyOnClose (sendMessage b d st) = notifyOnClose (trackCallState b d (get_field d ''id'') st)"
  by (simp_all add: sendMessage_def send_simps trackCallState_simps)

lemma get_field_set_field:
  "get_field (set_field k v d) k' = (if k' = k then v else get_field d k')"
  by (induction d) auto

lemma keys_set_field:
  "get_field d k \<noteq> JUndefined \<Longrightarrow> map fst (set_field k v d) = map fst d"
  by (induction d) auto

lemma set_field_same:
  "get_field d k = v \<Longrightarrow> v \<noteq> JUndefined \<Longrightarrow> set_field k v d = d"
  by (induction d) auto

lemma set_field_split:
  "get_field d k \<noteq> JUndefined \<Longrightarrow>
   \<exists>pre post. d = pre @ (k, get_field d k) # post \<and> k \<notin> fst ` set pre \<and>
     set_field k v d = pre @ (k, v) # post"
proof (induction d)
  case Nil
  then show ?case by simp
next
  case (Cons a d)
  obtain a1 a2 where a: "a = (a1, a2)" by (cases a)
  show ?case
  proof (cases "a1 = k")
    case True
    then have "a # d = [] @ (k, get_field (a # d) k) # d \<and> k \<notin> fst ` set [] \<and>
        set_field k v (a # d) = [] @ (k, v) # d"
      using a by simp
    then show ?thesis by blast
  next
    case False
    then have "get_field d k \<noteq> JUndefined" using Cons.prems a by simp
    then obtain pre post where
      "d = pre @ (k, get_field d k) # post" "k \<notin> fst ` set pre" "set_field k v d = pre @ (k, v) # post"
      using Cons.IH by blast
    then have "a # d = (a # pre) @ (k, get_field (a # d) k) # post \<and> k \<notin> fst ` set (a # pre) \<and>
        set_field k v (a # d) = (a # pre) @ (k, v) # post"
      using a False by auto
    then show ?thesis by blast
  qed
qed

lemma forward_registered:
  assumes "get_field d ''id'' = JString b" "b \<noteq> []" "b \<in> connections st"
  shows "forward a d st =
     trackCallState a (set_field ''id'' (JString a) d) (JString b)
       (sendMessage b (set_field ''id'' (JString a) d) st)"
  using assms by (simp add: forward_def Let_def)

lemma forward_dropped:
  "\<not> truthy (get_field d ''id'') \<or> \<not> connections_has st (get_field d ''id'') \<Longrightarrow> forward a d st = st"
  by (auto simp add: forward_def)

lemma fold_notify_connections:
  "connections (fold (notify_peer a) xs s) = connections s"
  by (induction xs arbitrary: s)
     (auto simp add: notify_peer_def sendMessage_simps split: option.splits)

lemma fold_notify_wire:
  "\<exists>new. wire (fold (notify_peer a) xs s) = wire s @ new \<and>
     received_by b new =
       (if b \<in> connections s then replicate (count_list xs (JString b)) (JObject (bye a)) else [])"
proof (induction xs arbitrary: s)
  case Nil
  then show ?case by (simp add: received_by_def)
next
  case (Cons x xs)
  let ?s1 = "notify_peer a x s"
  have c1: "connections ?s1 = connections s"
    by (simp add: notify_peer_def sendMessage_simps split: option.splits)
  obtain new where new: "wire (fold (notify_peer a) xs ?s1) = wire ?s1 @ new"
    "received_by b new =
       (if b \<in> connections s then replicate (count_list xs (JString b)) (JObject (bye a)) else [])"
    using Cons.IH [of ?s1] c1 by auto
  show ?case
  proof (cases "connections_get s x")
    case None
    then have w: "wire ?s1 = wire s" by (simp add: notify_peer_def)
    have "x = JString b \<Longrightarrow> b \<notin> connections s"
      using None by (auto split: if_splits)
    then show ?thesis using new w by auto
  next
    case (Some p)
    then have w: "wire ?s1 = wire s @ [(p, JObject (bye a))]"
      by (simp add: notify_peer_def sendMessage_simps)
    have xp: "x = JString p" "p \<in> connections s"
      using Some by (cases x; auto split: if_splits)+
    have "wire (fold (notify_peer a) (x # xs) s) = wire s @ ((p, JObject (bye a)) # new)"
      using new w by simp
    moreover have "received_by b ((p, JObject (bye a)) # new) =
       (if b \<in> connections s then replicate (count_list (x # xs) (JString b)) (JObject (bye a)) else [])"
      using new(2) xp by (auto simp add: received_by_def)
    ultimately show ?thesis by blast
  qed
qed

lemma on_close_received:
  "received_by b (sent_since st (on_close a st)) =
     (if b \<in> connections st \<and> b \<noteq> a
      then replicate (count_list (notifyOnClose st a) (JString b)) (JObject (bye a)) else [])"
proof -
  let ?s1 = "st\<lparr>connections := connections st - {a}\<rparr>"
  obtain new where new: "wire (fold (notify_peer a) (notifyOnClose ?s1 a) ?s1) = wire ?s1 @ new"
    "received_by b new =
       (if b \<in> connections ?s1 then replicate (count_list (notifyOnClose ?s1 a) (JString b)) (JObject (bye a)) else [])"
    using fold_notify_wire [of a "notifyOnClose ?s1 a" ?s1 b] by blast
  have "sent_since st (on_close a st) = new"
    using new(1) by (simp add: sent_since_def on_close_def)
  then show ?thesis using new(2) by auto
qed

subsection \<open>Forwarding\<close>

lemmas handler_defs = on_connection_def send_def hello_def iceServers_def stun_list_def
  initial_def forward_def sendMessage_def trackCallState_def on_close_def notify_peer_def
  bye_def received_by_def sent_since_def Let_def

lemma two_peers_simps:
  "connections two_peers = {''a'', ''b''}"
  "notifyOnClose two_peers ''a'' = []"
  "notifyOnClose two_peers ''b'' = []"
  by (auto simp add: two_peers_def on_connection_def send_def initial_def Let_def)

lemma forward_connections: "connections (forward s d st) = connections st"
  by (simp add: forward_def Let_def trackCallState_simps sendMessage_simps split: option.splits)

lemma forward_wire:
  assumes "get_field d ''id'' = JString t" "t \<noteq> []" "t \<in> connections st"
  shows "wire (forward s d st) = wire st @ [(t, JObject (set_field ''id'' (JString s) d))]"
  using assms by (simp add: forward_registered trackCallState_simps sendMessage_simps)

lemma forward_answer:
  assumes "get_field d ''id'' = JString t" "t \<noteq> []" "t \<in> connections st"
    and "get_field d ''type'' = JString ''answer''"
  shows "notifyOnClose (forward s d st) =
     ((notifyOnClose st)(t := notifyOnClose st t @ [JString s]))
       (s := ((notifyOnClose st)(t := notifyOnClose st t @ [JString s])) s @ [JString t])"
proof -
  let ?d = "set_field ''id'' (JString s) d"
  have ty: "get_field ?d ''type'' = JString ''answer''"
    using assms(4) by (simp add: get_field_set_field)
  have i: "get_field ?d ''id'' = JString s"
    by (simp add: get_field_set_field)
  show ?thesis
    using assms(1-3) ty i
    by (simp add: forward_registered trackCallState_answer sendMessage_simps)
qed

lemma forward_bye:
  assumes "get_field d ''id'' = JString t" "t \<noteq> []" "t \<in> connections st"
    and "get_field d ''type'' = JString ''bye''"
  shows "notifyOnClose (forward s d st) =
     ((notifyOnClose st)(t := remove1 (JString s) (notifyOnClose st t)))
       (s := remove1 (JString t) (((notifyOnClose st)(t := remove1 (JString s) (notifyOnClose st t))) s))"
proof -
  let ?d = "set_field ''id'' (JString s) d"
  have ty: "get_field ?d ''type'' = JString ''bye''"
    using assms(4) by (simp add: get_field_set_field)
  have i: "get_field ?d ''id'' = JString s"
    by (simp add: get_field_set_field)
  show ?thesis
    using assms(1-3) ty i
    by (simp add: forward_registered trackCallState_bye sendMessage_simps)
qed

subsection \<open>The close handler walks a list that stays as it is\<close>

lemma trackCallState_other_list:
  "c \<noteq> a \<Longrightarrow> notifyOnClose (trackCallState c d p st) a = notifyOnClose st a"
  by (simp add: trackCallState_def)

lemma fold_notify_own_list:
  "a \<notin> connections s \<Longrightarrow> notifyOnClose (fold (notify_peer a) xs s) a = notifyOnClose s a"
proof (induction xs arbitrary: s)
  case Nil
  then show ?case by simp
next
  case (Cons x xs)
  let ?s1 = "notify_peer a x s"
  have c: "connections ?s1 = connections s"
    by (simp add: notify_peer_def sendMessage_simps split: option.splits)
  have "notifyOnClose ?s1 a = notifyOnClose s a"
  proof (cases "connections_get s x")
    case None
    then show ?thesis by (simp add: notify_peer_def)
  next
    case (Some p)
    then have "p \<in> connections s" by (cases x; auto split: if_splits)
    then have "p \<noteq> a" using Cons.prems by auto
    then show ?thesis
      using Some by (simp add: notify_peer_def sendMessage_simps trackCallState_other_list)
  qed
  then show ?case using Cons.IH [of ?s1] Cons.prems c by simp
qed

lemma on_close_own_list: "notifyOnClose (on_close a st) a = notifyOnClose st a"
  using fold_notify_own_list [of a "st\<lparr>connections := connections st - {a}\<rparr>" "notifyOnClose st a"]
  by (simp add: on_close_def)

lemma on_close_connections: "connections (on_close a st) = connections st - {a}"
  by (simp add: on_close_def fold_notify_connections)

subsection \<open>The example state\<close>

lemma two_peers_wire:
  "wire two_peers = [(''a'', hello ''a''), (''a'', iceServers stun_list),
                     (''b'', hello ''b''), (''b'', iceServers stun_list)]"
  by (simp add: two_peers_def on_connection_def send_def initial_def Let_def)

section \<open>The claims\<close>

text \<open>
  Identities are what \<^verbatim>\<open>uuid.v4()\<close> returns, so the theorems about two peers in a call
  take them to be non-empty strings: the router drops an envelope whose \<^verbatim>\<open>id\<close> is the
  empty string before it looks the target up.
\<close>

subsection \<open>C1: repeated answer, bye for an absent peer\<close>

text \<open>
  C1, as stated: applying the \<^verbatim>\<open>answer\<close> transition twice for the same peer leaves the
  subscriber set as if applied once, so the peer gets at most one synthesized \<^verbatim>\<open>bye\<close>
  on disconnect. The code pushes onto an array and never looks for the peer first. In
  the run below \<open>a\<close> sends \<open>b\<close> two answers and closes: the transition applied twice
  leaves two entries where once leaves one, and \<open>b\<close> is sent two \<^verbatim>\<open>bye\<close> frames.
\<close>

theorem answer_twice_two_byes:
  "notifyOnClose (trackCallState ''a'' [(''type'', JString ''answer'')] (JString ''b'') two_peers) ''a''
     = [JString ''b'']
   \<and> notifyOnClose (trackCallState ''a'' [(''type'', JString ''answer'')] (JString ''b'')
        (trackCallState ''a'' [(''type'', JString ''answer'')] (JString ''b'') two_peers)) ''a''
     = [JString ''b'', JString ''b'']
   \<and> inbox ''b'' (run [Connect False ''a'', Connect False ''b'',
         Message ''a'' (Some (JObject [(''type'', JString ''answer''), (''id'', JString ''b'')])),
         Message ''a'' (Some (JObject [(''type'', JString ''answer''), (''id'', JString ''b'')])),
         Close ''a''] initial) =
     Inr [hello ''b'', iceServers stun_list,
          JObject [(''type'', JString ''answer''), (''id'', JString ''a'')],
          JObject [(''type'', JString ''answer''), (''id'', JString ''a'')],
          JObject (bye ''a''), JObject (bye ''a'')]"
  by (simp add: handler_defs two_peers_def)

text \<open>
  C1, amended: the subscribers of a connection are a list in which a peer can occur
  several times. Each \<^verbatim>\<open>answer\<close> transition appends the peer, so two of them for the
  same peer leave two more occurrences; when the connection \<open>a\<close> closes, a peer \<open>b\<close>
  that is still registered is sent one synthesized \<^verbatim>\<open>bye\<close> for each occurrence of \<open>b\<close>
  in the list of \<open>a\<close>; and the \<^verbatim>\<open>bye\<close> transition for a peer that is not in the list
  changes nothing and raises no error.
\<close>

theorem answer_appends_bye_absent_noop:
  "(get_field d ''type'' = JString ''answer'' \<longrightarrow>
      notifyOnClose (trackCallState c d p (trackCallState c d p st)) c = notifyOnClose st c @ [p, p])
   \<and> (b \<in> connections st \<and> b \<noteq> a \<longrightarrow>
      received_by b (sent_since st (on_close a st)) =
        replicate (count_list (notifyOnClose st a) (JString b)) (JObject (bye a)))
   \<and> (get_field d' ''type'' = JString ''bye'' \<and> q \<notin> set (notifyOnClose st c) \<longrightarrow>
      trackCallState c d' q st = st)"
  by (simp add: on_close_received trackCallState_answer) (simp add: trackCallState_def)

theorem answer_appends_bye_absent_noop_witness:
  "get_field [(''type'', JString ''answer'')] ''type'' = JString ''answer''
   \<and> ''b'' \<in> connections (forward ''b'' [(''type'', JString ''answer''), (''id'', JString ''a'')] two_peers)
   \<and> ''b'' \<noteq> ''a''
   \<and> get_field [(''type'', JString ''bye'')] ''type'' = JString ''bye''
   \<and> JString ''c'' \<notin> set (notifyOnClose (forward ''b'' [(''type'', JString ''answer''), (''id'', JString ''a'')] two_peers) ''a'')
   \<and> notifyOnClose (trackCallState ''a'' [(''type'', JString ''answer'')] (JString ''b'')
        (trackCallState ''a'' [(''type'', JString ''answer'')] (JString ''b'')
          (forward ''b'' [(''type'', JString ''answer''), (''id'', JString ''a'')] two_peers))) ''a''
       = [JString ''b'', JString ''b'', JString ''b'']
   \<and> received_by ''b'' (sent_since (forward ''b'' [(''type'', JString ''answer''), (''id'', JString ''a'')] two_peers)
        (on_close ''a'' (forward ''b'' [(''type'', JString ''answer''), (''id'', JString ''a'')] two_peers)))
       = [JObject (bye ''a'')]
   \<and> trackCallState ''a'' [(''type'', JString ''bye'')] (JString ''c'')
        (forward ''b'' [(''type'', JString ''answer''), (''id'', JString ''a'')] two_peers)
       = forward ''b'' [(''type'', JString ''answer''), (''id'', JString ''a'')] two_peers"
proof -
  let ?st = "forward ''b'' [(''type'', JString ''answer''), (''id'', JString ''a'')] two_peers"
  have n: "notifyOnClose ?st ''a'' = [JString ''b'']"
    by (simp add: forward_answer two_peers_simps)
  have h1: "get_field [(''type'', JString ''answer'')] ''type'' = JString ''answer''" by simp
  have h2: "''b'' \<in> connections ?st" by (simp add: forward_connections two_peers_simps)
  have h3: "''b'' \<noteq> ''a''" by simp
  have h4: "get_field [(''type'', JString ''bye'')] ''type'' = JString ''bye''" by simp
  have h5: "JString ''c'' \<notin> set (notifyOnClose ?st ''a'')" using n by simp
  show ?thesis
    using h1 h2 h3 h4 h5 n
      answer_appends_bye_absent_noop [of "[(''type'', JString ''answer'')]" "''a''" "JString ''b''"
        ?st "''b''" "''a''" "[(''type'', JString ''bye'')]" "JString ''c''"]
    by simp
qed

subsection \<open>C2: failure of the ICE-server provider\<close>

text \<open>
  C2: when the provider's fetch fails, the client is still sent an \<^verbatim>\<open>iceServers\<close>
  envelope with a fallback list and the failure is handled. The code does otherwise:
  with Twilio configured a new connection is sent the greeting only, and when the promise
  of \<^verbatim>\<open>twilio.tokens.create()\<close> is rejected nothing is sent and the rejection has no
  handler. Without Twilio the same handler does send a default list.
\<close>

theorem provider_failure_unhandled:
  "on_token ident Rejected st = Inl UnhandledRejection
   \<and> inbox ''a'' (run [Connect True ''a''] initial) = Inr [hello ''a'']
   \<and> run [Connect True ''a'', Token ''a'' Rejected] initial = Inl UnhandledRejection
   \<and> inbox ''a'' (run [Connect False ''a''] initial) = Inr [hello ''a'', iceServers stun_list]"
  by (simp add: handler_defs)

subsection \<open>C3: one answer, then the subscriber closes\<close>

text \<open>
  C3: \<open>a\<close> and \<open>b\<close> are registered and \<open>a\<close> does not yet list \<open>b\<close>; one \<^verbatim>\<open>answer\<close>
  envelope goes from \<open>a\<close> to \<open>b\<close> or from \<open>b\<close> to \<open>a\<close>; then \<open>a\<close> closes. The close
  handler sends \<open>b\<close> exactly one frame, \<^verbatim>\<open>{type: 'bye', id: a}\<close> (written out below,
  property by property), and it sends nothing to an identity that is not registered.
\<close>

theorem subscribe_notify:
  assumes "a \<in> connections st" "b \<in> connections st" "a \<noteq> b" "a \<noteq> []" "b \<noteq> []"
    and "JString b \<notin> set (notifyOnClose st a)"
    and "get_field d ''type'' = JString ''answer''"
    and "(s = a \<and> t = b) \<or> (s = b \<and> t = a)"
    and "get_field d ''id'' = JString t"
  shows "\<exists>st'. on_message s (Some (JObject d)) st = Inr st' \<and>
           received_by b (sent_since st' (on_close a st')) =
             [JObject [(''type'', JString ''bye''), (''id'', JString a)]] \<and>
           (\<forall>u. u \<notin> connections st' \<longrightarrow> received_by u (sent_since st' (on_close a st')) = [])"
proof -
  let ?st = "forward s d st"
  have t: "t \<noteq> []" "t \<in> connections st"
    using assms by auto
  have n: "notifyOnClose ?st a = notifyOnClose st a @ [JString b]"
    using assms(3,8) by (auto simp add: forward_answer [OF assms(9) t assms(7)])
  have "count_list (notifyOnClose ?st a) (JString b) = 1"
    using n assms(6) by (simp add: count_list_0_iff)
  then have "received_by b (sent_since ?st (on_close a ?st)) =
      [JObject [(''type'', JString ''bye''), (''id'', JString a)]]"
    using assms(2,3) by (simp add: on_close_received forward_connections bye_def)
  moreover have "\<forall>u. u \<notin> connections ?st \<longrightarrow> received_by u (sent_since ?st (on_close a ?st)) = []"
    by (simp add: on_close_received)
  ultimately show ?thesis by simp
qed

theorem subscribe_notify_witness:
  "''a'' \<in> connections two_peers \<and> ''b'' \<in> connections two_peers \<and> ''a'' \<noteq> ''b'' \<and> ''a'' \<noteq> [] \<and> ''b'' \<noteq> [] \<and>
   JString ''b'' \<notin> set (notifyOnClose two_peers ''a'') \<and>
   get_field [(''type'', JString ''answer''), (''id'', JString ''a''), (''sdp'', JString ''a1'')] ''type'' = JString ''answer'' \<and>
   get_field [(''type'', JString ''answer''), (''id'', JString ''a''), (''sdp'', JString ''a1'')] ''id'' = JString ''a'' \<and>
   (\<exists>st'. on_message ''b'' (Some (JObject [(''type'', JString ''answer''), (''id'', JString ''a''), (''sdp'', JString ''a1'')])) two_peers = Inr st' \<and>
      received_by ''b'' (sent_since st' (on_close ''a'' st')) =
        [JObject [(''type'', JString ''bye''), (''id'', JString ''a'')]] \<and>
      (\<forall>u. u \<notin> connections st' \<longrightarrow> received_by u (sent_since st' (on_close ''a'' st')) = []))"
proof -
  let ?d = "[(''type'', JString ''answer''), (''id'', JString ''a''), (''sdp'', JString ''a1'')]"
  have h1: "''a'' \<in> connections two_peers" by (simp add: two_peers_simps)
  have h2: "''b'' \<in> connections two_peers" by (simp add: two_peers_simps)
  have h3: "''a'' \<noteq> ''b''" by simp
  have h4: "''a'' \<noteq> []" by simp
  have h5: "''b'' \<noteq> []" by simp
  have h6: "JString ''b'' \<notin> set (notifyOnClose two_peers ''a'')" by (simp add: two_peers_simps)
  have h7: "get_field ?d ''type'' = JString ''answer''" by simp
  have h8: "(''b'' = ''a'' \<and> ''a'' = ''b'') \<or> (''b'' = ''b'' \<and> ''a'' = ''a'')" by simp
  have h9: "get_field ?d ''id'' = JString ''a''" by simp
  show ?thesis
    using h1 h2 h3 h4 h5 h6 h7 h9 subscribe_notify [OF h1 h2 h3 h4 h5 h6 h7 h8 h9] by blast
qed

subsection \<open>C4: routing rewrites the id and nothing else\<close>

text \<open>
  C4: when \<open>a\<close> sends an envelope whose \<^verbatim>\<open>id\<close> is the registered identity \<open>b\<close>, the
  handler sends one frame, to \<open>b\<close>: the envelope with the value of its \<^verbatim>\<open>id\<close> property
  replaced by \<open>a\<close>, every other property (and the order of the properties) as received.
\<close>

theorem routing_rewrites_id:
  assumes "b \<in> connections st" "b \<noteq> []" "get_field d ''id'' = JString b"
  shows "\<exists>st' pre post. on_message a (Some (JObject d)) st = Inr st' \<and>
           d = pre @ (''id'', JString b) # post \<and> ''id'' \<notin> fst ` set pre \<and>
           sent_since st st' = [(b, JObject (pre @ (''id'', JString a) # post))]"
proof -
  have "get_field d ''id'' \<noteq> JUndefined"
    using assms(3) by simp
  then obtain pre post where p: "d = pre @ (''id'', get_field d ''id'') # post"
    "''id'' \<notin> fst ` set pre" "set_field ''id'' (JString a) d = pre @ (''id'', JString a) # post"
    using set_field_split [of d "''id''" "JString a"] by blast
  have "sent_since st (forward a d st) = [(b, JObject (pre @ (''id'', JString a) # post))]"
    using p(3) by (simp add: sent_since_def forward_wire [OF assms(3,2,1)])
  then show ?thesis
    using p(1,2) assms(3) by auto
qed

theorem routing_rewrites_id_witness:
  "''b'' \<in> connections two_peers \<and> ''b'' \<noteq> [] \<and>
   get_field [(''type'', JString ''offer''), (''id'', JString ''b''), (''sdp'', JString ''x'')] ''id'' = JString ''b'' \<and>
   (\<exists>st'. on_message ''a'' (Some (JObject [(''type'', JString ''offer''), (''id'', JString ''b''), (''sdp'', JString ''x'')])) two_peers = Inr st' \<and>
      sent_since two_peers st' = [(''b'', JObject [(''type'', JString ''offer''), (''id'', JString ''a''), (''sdp'', JString ''x'')])])"
proof -
  let ?d = "[(''type'', JString ''offer''), (''id'', JString ''b''), (''sdp'', JString ''x'')]"
  have h1: "''b'' \<in> connections two_peers" by (simp add: two_peers_simps)
  have h2: "''b'' \<noteq> []" by simp
  have h3: "get_field ?d ''id'' = JString ''b''" by simp
  obtain st' pre post where r: "on_message ''a'' (Some (JObject ?d)) two_peers = Inr st'"
    "?d = pre @ (''id'', JString ''b'') # post" "''id'' \<notin> fst ` set pre"
    "sent_since two_peers st' = [(''b'', JObject (pre @ (''id'', JString ''a'') # post))]"
    using routing_rewrites_id [OF h1 h2 h3, of "''a''"] by blast
  have "pre = [(''type'', JString ''offer'')] \<and> post = [(''sdp'', JString ''x'')]"
  proof (cases pre)
    case Nil
    then show ?thesis using r(2) by simp
  next
    case (Cons x xs)
    then have x: "x = (''type'', JString ''offer'')" using r(2) by simp
    show ?thesis
    proof (cases xs)
      case Nil
      then show ?thesis using r(2) Cons x by simp
    next
      case (Cons y ys)
      then have "y = (''id'', JString ''b'')" using r(2) \<open>pre = x # xs\<close> by simp
      then show ?thesis using r(3) Cons \<open>pre = x # xs\<close> by simp
    qed
  qed
  then show ?thesis using h1 h2 h3 r(1,4) by auto
qed

subsection \<open>C5: answer, then bye, then the subscriber closes\<close>

text \<open>
  C5: \<open>a\<close> and \<open>b\<close> are registered and \<open>a\<close> does not yet list \<open>b\<close>; one \<^verbatim>\<open>answer\<close>
  envelope and then one \<^verbatim>\<open>bye\<close> envelope go between them, each from \<open>a\<close> to \<open>b\<close> or
  from \<open>b\<close> to \<open>a\<close>; then \<open>a\<close> closes. The close handler sends \<open>b\<close> nothing.
\<close>

theorem unsubscribe_no_bye:
  assumes "a \<in> connections st" "b \<in> connections st" "a \<noteq> b" "a \<noteq> []" "b \<noteq> []"
    and "JString b \<notin> set (notifyOnClose st a)"
    and "get_field d1 ''type'' = JString ''answer''"
    and "(s1 = a \<and> t1 = b) \<or> (s1 = b \<and> t1 = a)"
    and "get_field d1 ''id'' = JString t1"
    and "get_field d2 ''type'' = JString ''bye''"
    and "(s2 = a \<and> t2 = b) \<or> (s2 = b \<and> t2 = a)"
    and "get_field d2 ''id'' = JString t2"
  shows "\<exists>st1 st2. on_message s1 (Some (JObject d1)) st = Inr st1 \<and>
           on_message s2 (Some (JObject d2)) st1 = Inr st2 \<and>
           received_by b (sent_since st2 (on_close a st2)) = []"
proof -
  let ?st1 = "forward s1 d1 st"
  let ?st2 = "forward s2 d2 ?st1"
  have t1: "t1 \<noteq> []" "t1 \<in> connections st"
    using assms by auto
  have t2: "t2 \<noteq> []" "t2 \<in> connections ?st1"
    using assms by (auto simp add: forward_connections)
  have n1: "notifyOnClose ?st1 a = notifyOnClose st a @ [JString b]"
    using assms(3,8) by (auto simp add: forward_answer [OF assms(9) t1 assms(7)])
  have "notifyOnClose ?st2 a = remove1 (JString b) (notifyOnClose ?st1 a)"
    using assms(3,11) by (auto simp add: forward_bye [OF assms(12) t2 assms(10)])
  then have "notifyOnClose ?st2 a = notifyOnClose st a"
    using n1 assms(6) by (simp add: remove1_append)
  then have "count_list (notifyOnClose ?st2 a) (JString b) = 0"
    using assms(6) by (simp add: count_list_0_iff)
  then have "received_by b (sent_since ?st2 (on_close a ?st2)) = []"
    by (simp add: on_close_received)
  then show ?thesis by simp
qed

theorem unsubscribe_no_bye_witness:
  "''a'' \<in> connections two_peers \<and> ''b'' \<in> connections two_peers \<and> ''a'' \<noteq> ''b'' \<and> ''a'' \<noteq> [] \<and> ''b'' \<noteq> [] \<and>
   JString ''b'' \<notin> set (notifyOnClose two_peers ''a'') \<and>
   get_field [(''type'', JString ''answer''), (''id'', JString ''a''), (''sdp'', JString ''a1'')] ''type'' = JString ''answer'' \<and>
   get_field [(''type'', JString ''answer''), (''id'', JString ''a''), (''sdp'', JString ''a1'')] ''id'' = JString ''a'' \<and>
   get_field [(''type'', JString ''bye''), (''id'', JString ''b'')] ''type'' = JString ''bye'' \<and>
   get_field [(''type'', JString ''bye''), (''id'', JString ''b'')] ''id'' = JString ''b'' \<and>
   (\<exists>st1 st2.
      on_message ''b'' (Some (JObject [(''type'', JString ''answer''), (''id'', JString ''a''), (''sdp'', JString ''a1'')])) two_peers = Inr st1 \<and>
      on_message ''a'' (Some (JObject [(''type'', JString ''bye''), (''id'', JString ''b'')])) st1 = Inr st2 \<and>
      received_by ''b'' (sent_since st2 (on_close ''a'' st2)) = [])"
proof -
  let ?d1 = "[(''type'', JString ''answer''), (''id'', JString ''a''), (''sdp'', JString ''a1'')]"
  let ?d2 = "[(''type'', JString ''bye''), (''id'', JString ''b'')]"
  have h1: "''a'' \<in> connections two_peers" by (simp add: two_peers_simps)
  have h2: "''b'' \<in> connections two_peers" by (simp add: two_peers_simps)
  have h3: "''a'' \<noteq> ''b''" by simp
  have h4: "''a'' \<noteq> []" by simp
  have h5: "''b'' \<noteq> []" by simp
  have h6: "JString ''b'' \<notin> set (notifyOnClose two_peers ''a'')" by (simp add: two_peers_simps)
  have h7: "get_field ?d1 ''type'' = JString ''answer''" by simp
  have h8: "(''b'' = ''a'' \<and> ''a'' = ''b'') \<or> (''b'' = ''b'' \<and> ''a'' = ''a'')" by simp
  have h9: "get_field ?d1 ''id'' = JString ''a''" by simp
  have h10: "get_field ?d2 ''type'' = JString ''bye''" by simp
  have h11: "(''a'' = ''a'' \<and> ''b'' = ''b'') \<or> (''a'' = ''b'' \<and> ''b'' = ''a'')" by simp
  have h12: "get_field ?d2 ''id'' = JString ''b''" by simp
  show ?thesis
    using h1 h2 h3 h4 h5 h6 h7 h9 h10 h12
      unsubscribe_no_bye [OF h1 h2 h3 h4 h5 h6 h7 h8 h9 h10 h11 h12] by blast
qed

subsection \<open>C6: duplicate identity\<close>

text \<open>
  C6: when the id issued to a new connection is already a key of the registry, the
  handler closes the new socket and returns: the registry, the call state and the log of
  sent frames are what they were.
\<close>

theorem duplicate_identity_rejected:
  "ident \<in> connections st \<Longrightarrow> on_connection twilio ident st = (ClosedDuplicate, st)"
  by (simp add: on_connection_def)

theorem duplicate_identity_rejected_witness:
  "''a'' \<in> connections two_peers \<and> on_connection False ''a'' two_peers = (ClosedDuplicate, two_peers)"
proof -
  have h: "''a'' \<in> connections two_peers" by (simp add: two_peers_simps)
  show ?thesis using h duplicate_identity_rejected [OF h, of False] by simp
qed

subsection \<open>C7: unknown target\<close>

text \<open>
  C7: an envelope whose \<^verbatim>\<open>id\<close> is an identity that is not in the registry is dropped:
  the handler returns normally and the state is unchanged, so nothing is sent to the
  sender or anyone else and no subscriber list and no registry entry changes.
\<close>

theorem unknown_target_dropped:
  "get_field d ''id'' = JString t \<Longrightarrow> t \<notin> connections st \<Longrightarrow>
   on_message ident (Some (JObject d)) st = Inr st"
  by (simp add: forward_dropped)

theorem unknown_target_dropped_witness:
  "get_field [(''type'', JString ''answer''), (''id'', JString ''c''), (''sdp'', JString ''x'')] ''id'' = JString ''c''
   \<and> ''c'' \<notin> connections two_peers
   \<and> on_message ''a'' (Some (JObject [(''type'', JString ''answer''), (''id'', JString ''c''), (''sdp'', JString ''x'')])) two_peers
       = Inr two_peers"
proof -
  have h1: "get_field [(''type'', JString ''answer''), (''id'', JString ''c''), (''sdp'', JString ''x'')] ''id'' = JString ''c''"
    by simp
  have h2: "''c'' \<notin> connections two_peers" by (simp add: two_peers_simps)
  show ?thesis using h1 h2 unknown_target_dropped [OF h1 h2, of "''a''"] by simp
qed

subsection \<open>C8: malformed messages\<close>

text \<open>
  What the handler does drop: a message \<^verbatim>\<open>JSON.parse\<close> rejects, a parsed boolean, number,
  string or array, and an object without an \<^verbatim>\<open>id\<close> property.
\<close>

lemma malformed_dropped:
  "on_message ident None st = Inr st"
  "on_message ident (Some (JBool x)) st = Inr st"
  "on_message ident (Some (JNumber n)) st = Inr st"
  "on_message ident (Some (JString s)) st = Inr st"
  "on_message ident (Some (JArray xs)) st = Inr st"
  "get_field d ''id'' = JUndefined \<Longrightarrow> on_message ident (Some (JObject d)) st = Inr st"
  by (simp_all add: forward_dropped)

text \<open>
  C8: a message that is not parseable, or that parses but has no \<^verbatim>\<open>id\<close> field, is
  dropped with no reply and no state change. The message \<^verbatim>\<open>null\<close> parses and has no
  \<^verbatim>\<open>id\<close> field, and the handler does not drop it: reading \<^verbatim>\<open>data.id\<close> throws a
  TypeError that nothing catches.
\<close>

theorem null_message_type_error:
  "on_message ident (Some JNull) st = Inl TypeError
   \<and> run [Connect False ''a'', Connect False ''b'', Message ''a'' (Some JNull)] initial = Inl TypeError"
  by (simp add: handler_defs)

subsection \<open>C9: falsy id\<close>

text \<open>
  C9: an envelope whose \<^verbatim>\<open>id\<close> property is the empty string, 0, false or null is dropped
  with the state unchanged, exactly as the same envelope without its \<^verbatim>\<open>id\<close> property is;
  this holds whatever the registry contains, so the empty string addresses nobody.
\<close>

theorem falsy_id_dropped:
  "get_field d ''id'' \<in> {JString [], JNumber 0, JBool False, JNull} \<Longrightarrow>
   on_message ident (Some (JObject d)) st = Inr st \<and>
   on_message ident (Some (JObject d)) st =
     on_message ident (Some (JObject (filter (\<lambda>p. fst p \<noteq> ''id'') d))) st"
proof -
  assume a: "get_field d ''id'' \<in> {JString [], JNumber 0, JBool False, JNull}"
  have "get_field (filter (\<lambda>p. fst p \<noteq> k) d) k = JUndefined" for k
    by (induction d) auto
  then have "forward ident (filter (\<lambda>p. fst p \<noteq> ''id'') d) st = st"
    by (simp add: forward_dropped)
  moreover have "forward ident d st = st"
    using a by (auto simp add: forward_dropped)
  ultimately show ?thesis by simp
qed

theorem falsy_id_dropped_witness:
  "get_field [(''type'', JString ''offer''), (''id'', JString [])] ''id'' \<in> {JString [], JNumber 0, JBool False, JNull}
   \<and> [] \<in> connections (snd (on_connection False [] two_peers))
   \<and> on_message ''a'' (Some (JObject [(''type'', JString ''offer''), (''id'', JString [])]))
        (snd (on_connection False [] two_peers))
       = Inr (snd (on_connection False [] two_peers))"
proof -
  have h: "get_field [(''type'', JString ''offer''), (''id'', JString [])] ''id'' \<in> {JString [], JNumber 0, JBool False, JNull}"
    by simp
  have r: "[] \<in> connections (snd (on_connection False [] two_peers))"
    by (simp add: on_connection_def send_def Let_def two_peers_simps)
  show ?thesis
    using h r falsy_id_dropped [OF h, of "''a''" "snd (on_connection False [] two_peers)"] by simp
qed

subsection \<open>C10: an envelope addressed to its sender\<close>

text \<open>
  C10: an envelope a registered connection \<open>c\<close> addresses to its own identity is handled
  like any other: it is sent back to \<open>c\<close>, its \<^verbatim>\<open>id\<close> set to \<open>c\<close> (which leaves it as it
  was), and when its type is \<^verbatim>\<open>answer\<close> the identity \<open>c\<close> is appended to the subscriber
  list of \<open>c\<close> twice, once by the receiving side's tracking and once by the sender's.
\<close>

theorem self_addressed_forwarded:
  assumes "c \<in> connections st" "c \<noteq> []" "get_field d ''id'' = JString c"
  shows "\<exists>st'. on_message c (Some (JObject d)) st = Inr st' \<and>
           sent_since st st' = [(c, JObject (set_field ''id'' (JString c) d))] \<and>
           set_field ''id'' (JString c) d = d \<and>
           connections st' = connections st \<and>
           (get_field d ''type'' = JString ''answer'' \<longrightarrow>
              notifyOnClose (sendMessage c (set_field ''id'' (JString c) d) st) c
                = notifyOnClose st c @ [JString c] \<and>
              notifyOnClose st' c = notifyOnClose st c @ [JString c, JString c])"
proof -
  have "sent_since st (forward c d st) = [(c, JObject (set_field ''id'' (JString c) d))]"
    by (simp add: sent_since_def forward_wire [OF assms(3,2,1)])
  moreover have same: "set_field ''id'' (JString c) d = d"
    using assms(3) by (simp add: set_field_same)
  moreover have "get_field d ''type'' = JString ''answer'' \<longrightarrow>
      notifyOnClose (forward c d st) c = notifyOnClose st c @ [JString c, JString c]"
    by (simp add: forward_answer [OF assms(3,2,1)])
  moreover have "get_field d ''type'' = JString ''answer'' \<longrightarrow>
      notifyOnClose (sendMessage c (set_field ''id'' (JString c) d) st) c
        = notifyOnClose st c @ [JString c]"
    using assms(3) by (simp add: same sendMessage_simps trackCallState_answer)
  ultimately show ?thesis
    by (simp add: forward_connections)
qed

theorem self_addressed_forwarded_witness:
  "''a'' \<in> connections two_peers \<and> ''a'' \<noteq> [] \<and>
   get_field [(''type'', JString ''answer''), (''id'', JString ''a'')] ''id'' = JString ''a'' \<and>
   get_field [(''type'', JString ''answer''), (''id'', JString ''a'')] ''type'' = JString ''answer'' \<and>
   (\<exists>st'. on_message ''a'' (Some (JObject [(''type'', JString ''answer''), (''id'', JString ''a'')])) two_peers = Inr st' \<and>
      sent_since two_peers st' = [(''a'', JObject [(''type'', JString ''answer''), (''id'', JString ''a'')])] \<and>
      notifyOnClose st' ''a'' = [JString ''a'', JString ''a''])"
proof -
  let ?d = "[(''type'', JString ''answer''), (''id'', JString ''a'')]"
  have h1: "''a'' \<in> connections two_peers" by (simp add: two_peers_simps)
  have h2: "''a'' \<noteq> []" by simp
  have h3: "get_field ?d ''id'' = JString ''a''" by simp
  have h4: "get_field ?d ''type'' = JString ''answer''" by simp
  show ?thesis
    using h1 h2 h3 h4 self_addressed_forwarded [OF h1 h2 h3] by (auto simp add: two_peers_simps)
qed

end
